theory Spec2Isabelle
  imports Main "HOL-Library.Word"
begin

unbundle bit_operations_syntax

section \<open>OMAP2/3 PRM module functions (arch/arm/mach-omap2/prm2xxx\_3xxx.c)\<close>

subsection \<open>Machine types\<close>

text \<open>
  The C types of the file. \<open>s16\<close> and \<open>u16\<close> are both sixteen bits wide; the
  signedness shows where a value is widened: \<open>scast\<close> sign-extends an \<open>s16\<close>,
  \<open>ucast\<close> zero-extends a \<open>u16\<close>. Passing an \<open>s16\<close> where a \<open>u16\<close> is
  expected (as \<open>omap2_prm_rmw_mod_reg_bits\<close> does with \<open>idx\<close>) keeps the bits.
  A \<open>void __iomem *\<close> is a 32-bit address on these chips.
\<close>

type_synonym u32 = "32 word"
type_synonym u16 = "16 word"
type_synonym s16 = "16 word"
type_synonym u8 = "8 word"
type_synonym iomem = "32 word"

subsection \<open>The hardware and the platform headers\<close>

text \<open>
  Everything the file takes from elsewhere is a field of the platform: the bus
  (\<open>__raw_readl\<close>, \<open>__raw_writel\<close> and \<open>udelay\<close> act on a device state of some
  type \<open>'d\<close>), the CPU predicates of plat/cpu.h, the mapped base addresses, and the
  register offsets, bit masks and identifiers of the register-map headers.
  A read returns what the device shows at that address and leaves the device as it
  is; a write and the passing of time may change the device in any way, so that a
  register can be plain storage, clear the bits written as 1, or be set by the
  hardware on its own.
\<close>

record 'd platform =
  hw_readl :: "iomem \<Rightarrow> 'd \<Rightarrow> u32"
  hw_writel :: "u32 \<Rightarrow> iomem \<Rightarrow> 'd \<Rightarrow> 'd"
  hw_udelay :: "nat \<Rightarrow> 'd \<Rightarrow> 'd"
  cpu_is_omap24xx :: bool
  cpu_is_omap34xx :: bool
  prm_base :: iomem
  cm_base :: iomem
  cm2_base :: iomem
  OMAP2_RM_RSTCTRL :: s16
  OMAP2_RM_RSTST :: s16
  MAX_MODULE_HARDRESET_WAIT :: nat
  OCP_MOD :: s16
  OMAP3430_GR_MOD :: s16
  OMAP3_PRM_IRQSTATUS_MPU_OFFSET :: u16
  OMAP3_PRM_IRQ_VDD_MPU_ID :: nat
  OMAP3_PRM_IRQ_VDD_CORE_ID :: nat
  OMAP3430_VP1_TRANXDONE_ST_MASK :: u32
  OMAP3430_VP2_TRANXDONE_ST_MASK :: u32
  OMAP3630_ABB_LDO_TRANXDONE_ST_MASK :: u32

text \<open>
  What a call does to the outside world is recorded in order: bus reads with the
  value they returned, bus writes, delays and kernel log messages.
\<close>

datatype event =
  Readl iomem u32
  | Writel iomem u32
  | Udelay nat
  | Pr_err string

record 'd machine =
  dev :: 'd
  trace :: "event list"

text \<open>
  A call either returns a value or stops: in behaviour the C language leaves
  undefined (a shift by an undefined or too large amount, an array index out of
  bounds) or in \<open>BUG_ON\<close>.
\<close>

datatype fault = Undefined_behaviour | Kernel_BUG

type_synonym ('a, 'd) io = "'d machine \<Rightarrow> (fault + 'a) \<times> 'd machine"

definition io_return :: "'a \<Rightarrow> ('a, 'd) io" where
  "io_return x s = (Inr x, s)"

definition io_fail :: "fault \<Rightarrow> ('a, 'd) io" where
  "io_fail e s = (Inl e, s)"

definition io_bind :: "('a, 'd) io \<Rightarrow> ('a \<Rightarrow> ('b, 'd) io) \<Rightarrow> ('b, 'd) io" where
  "io_bind m f s = (case m s of (Inl e, s') \<Rightarrow> (Inl e, s') | (Inr x, s') \<Rightarrow> f x s')"

definition raw_readl :: "'d platform \<Rightarrow> iomem \<Rightarrow> (u32, 'd) io" where
  "raw_readl P a s =
     (let v = hw_readl P a (dev s) in (Inr v, s\<lparr>trace := trace s @ [Readl a v]\<rparr>))"

definition raw_writel :: "'d platform \<Rightarrow> u32 \<Rightarrow> iomem \<Rightarrow> (unit, 'd) io" where
  "raw_writel P v a s =
     (Inr (), s\<lparr>dev := hw_writel P v a (dev s), trace := trace s @ [Writel a v]\<rparr>)"

definition udelay :: "'d platform \<Rightarrow> nat \<Rightarrow> (unit, 'd) io" where
  "udelay P n s =
     (Inr (), s\<lparr>dev := hw_udelay P n (dev s), trace := trace s @ [Udelay n]\<rparr>)"

definition pr_err :: "string \<Rightarrow> (unit, 'd) io" where
  "pr_err msg s = (Inr (), s\<lparr>trace := trace s @ [Pr_err msg]\<rparr>)"

text \<open>The writes among the events of a trace, in order.\<close>

fun writes_of :: "event list \<Rightarrow> (iomem \<times> u32) list" where
  "writes_of [] = []"
| "writes_of (Writel a v # es) = (a, v) # writes_of es"
| "writes_of (e # es) = writes_of es"

subsection \<open>Raw register accessors\<close>

text \<open>\<open>base + module + idx\<close>: byte arithmetic on the pointer, \<open>module\<close> signed.\<close>

definition reg_addr :: "iomem \<Rightarrow> s16 \<Rightarrow> u16 \<Rightarrow> iomem" where
  "reg_addr base module idx = base + scast module + ucast idx"

definition omap2_prm_read_mod_reg :: "'d platform \<Rightarrow> s16 \<Rightarrow> u16 \<Rightarrow> (u32, 'd) io" where
  "omap2_prm_read_mod_reg P module idx = raw_readl P (reg_addr (prm_base P) module idx)"

definition omap2_prm_write_mod_reg :: "'d platform \<Rightarrow> u32 \<Rightarrow> s16 \<Rightarrow> u16 \<Rightarrow> (unit, 'd) io" where
  "omap2_prm_write_mod_reg P val module idx =
     raw_writel P val (reg_addr (prm_base P) module idx)"

subsection \<open>Read-modify-write\<close>

definition omap2_prm_rmw_mod_reg_bits ::
  "'d platform \<Rightarrow> u32 \<Rightarrow> u32 \<Rightarrow> s16 \<Rightarrow> s16 \<Rightarrow> (u32, 'd) io" where
  "omap2_prm_rmw_mod_reg_bits P msk bits module idx =
     io_bind (omap2_prm_read_mod_reg P module idx) (\<lambda>v0.
       let v1 = v0 AND NOT msk;
           v2 = v1 OR bits
       in io_bind (omap2_prm_write_mod_reg P v2 module idx) (\<lambda>_. io_return v2))"

definition omap2_prm_set_mod_reg_bits :: "'d platform \<Rightarrow> u32 \<Rightarrow> s16 \<Rightarrow> s16 \<Rightarrow> (u32, 'd) io" where
  "omap2_prm_set_mod_reg_bits P bits module idx =
     omap2_prm_rmw_mod_reg_bits P bits bits module idx"

definition omap2_prm_clear_mod_reg_bits :: "'d platform \<Rightarrow> u32 \<Rightarrow> s16 \<Rightarrow> s16 \<Rightarrow> (u32, 'd) io" where
  "omap2_prm_clear_mod_reg_bits P bits module idx =
     omap2_prm_rmw_mod_reg_bits P bits 0 module idx"

subsection \<open>Bit extraction\<close>

text \<open>
  Modelled from the spec: \<open>__ffs\<close> (asm/bitops.h, not part of the sources) gives
  the index of the lowest set bit of its argument; the first set bit of zero is
  undefined. The bits of a 32-bit word are searched from bit 0 upwards.
\<close>

definition ffs :: "u32 \<Rightarrow> nat option" where
  "ffs w = List.find (bit w) [0..<32]"

definition omap2_prm_read_mod_bits_shift ::
  "'d platform \<Rightarrow> s16 \<Rightarrow> s16 \<Rightarrow> u32 \<Rightarrow> (u32, 'd) io" where
  "omap2_prm_read_mod_bits_shift P domain idx msk =
     io_bind (omap2_prm_read_mod_reg P domain idx) (\<lambda>v0.
       let v1 = v0 AND msk
       in (case ffs msk of
             None \<Rightarrow> io_fail Undefined_behaviour
           | Some n \<Rightarrow> io_return (drop_bit n v1)))"

subsection \<open>Hardreset\<close>

text \<open>
  Modelled from the spec: the error codes of linux/errno.h (not part of the
  sources), which the spec calls InvalidChip (\<open>-EINVAL\<close>), AlreadyDeasserted
  (\<open>-EEXIST\<close>) and Timeout (\<open>-EBUSY\<close>), with the values of the Linux ABI.
\<close>

definition EINVAL :: int where "EINVAL = 22"
definition EEXIST :: int where "EEXIST = 17"
definition EBUSY :: int where "EBUSY = 16"

text \<open>
  \<open>1 << shift\<close> with \<open>shift\<close> a \<open>u8\<close>: the operands are promoted to \<open>int\<close>,
  and a shift by the width of \<open>int\<close> or more is undefined.
\<close>

definition shl_one :: "u8 \<Rightarrow> (u32, 'd) io" where
  "shl_one shift =
     (if unat shift < 32 then io_return (push_bit (unat shift) 1)
      else io_fail Undefined_behaviour)"

definition omap2_prm_is_hardreset_asserted :: "'d platform \<Rightarrow> s16 \<Rightarrow> u8 \<Rightarrow> (int, 'd) io" where
  "omap2_prm_is_hardreset_asserted P prm_mod shift =
     (if \<not> (cpu_is_omap24xx P \<or> cpu_is_omap34xx P) then io_return (- EINVAL)
      else io_bind (shl_one shift) (\<lambda>m.
           io_bind (omap2_prm_read_mod_bits_shift P prm_mod (OMAP2_RM_RSTCTRL P) m) (\<lambda>v.
           io_return (sint v))))"

definition omap2_prm_assert_hardreset :: "'d platform \<Rightarrow> s16 \<Rightarrow> u8 \<Rightarrow> (int, 'd) io" where
  "omap2_prm_assert_hardreset P prm_mod shift =
     (if \<not> (cpu_is_omap24xx P \<or> cpu_is_omap34xx P) then io_return (- EINVAL)
      else io_bind (shl_one shift) (\<lambda>m.
           io_bind (omap2_prm_rmw_mod_reg_bits P m m prm_mod (OMAP2_RM_RSTCTRL P)) (\<lambda>_.
           io_return 0)))"

text \<open>
  Modelled from the spec: the macro \<open>omap_test_timeout(cond, timeout, index)\<close>
  (plat/common.h, not part of the sources) polls \<open>cond\<close>, bounded by a fixed
  maximum iteration budget: \<open>index\<close> counts the polls from 0, the loop stops at the
  first poll where \<open>cond\<close> is non-zero, waits one microsecond after each failed poll,
  and leaves \<open>index = timeout\<close> when the budget is exhausted.
\<close>

function omap_test_timeout ::
  "'d platform \<Rightarrow> (u32, 'd) io \<Rightarrow> nat \<Rightarrow> nat \<Rightarrow> (nat, 'd) io" where
  "omap_test_timeout P cond timeout index s =
     (if index < timeout then
        (case cond s of
           (Inl e, s') \<Rightarrow> (Inl e, s')
         | (Inr v, s') \<Rightarrow>
             if v \<noteq> 0 then (Inr index, s')
             else omap_test_timeout P cond timeout (index + 1) (snd (udelay P 1 s')))
      else (Inr index, s))"
  by pat_completeness auto
termination
  by (relation "measure (\<lambda>(P, cond, timeout, index, s). timeout - index)") auto

declare omap_test_timeout.simps [simp del]

definition omap2_prm_deassert_hardreset ::
  "'d platform \<Rightarrow> s16 \<Rightarrow> u8 \<Rightarrow> u8 \<Rightarrow> (int, 'd) io" where
  "omap2_prm_deassert_hardreset P prm_mod rst_shift st_shift =
     (if \<not> (cpu_is_omap24xx P \<or> cpu_is_omap34xx P) then io_return (- EINVAL)
      else io_bind (shl_one rst_shift) (\<lambda>rst.
           io_bind (shl_one st_shift) (\<lambda>st.
           io_bind (omap2_prm_read_mod_bits_shift P prm_mod (OMAP2_RM_RSTCTRL P) rst) (\<lambda>v.
           if v = 0 then io_return (- EEXIST)
           else
           io_bind (omap2_prm_rmw_mod_reg_bits P 0xffffffff st prm_mod (OMAP2_RM_RSTST P)) (\<lambda>_.
           io_bind (omap2_prm_rmw_mod_reg_bits P rst 0 prm_mod (OMAP2_RM_RSTCTRL P)) (\<lambda>_.
           io_bind (omap_test_timeout P
                      (omap2_prm_read_mod_bits_shift P prm_mod (OMAP2_RM_RSTST P) st)
                      (MAX_MODULE_HARDRESET_WAIT P) 0) (\<lambda>c.
           io_return (if c = MAX_MODULE_HARDRESET_WAIT P then - EBUSY else 0))))))))"

subsection \<open>PRM VP\<close>

record omap3_prm_irq =
  vp_tranxdone_status :: u32
  abb_tranxdone_status :: u32

text \<open>
  The table is an array with designated initialisers: it reaches up to the largest
  identifier, an element that is not initialised is zero, and so is the field
  \<open>abb_tranxdone_status\<close> of the core entry (``no abb for core'').
\<close>

definition omap3_prm_irqs :: "'d platform \<Rightarrow> omap3_prm_irq list" where
  "omap3_prm_irqs P =
     (replicate (Suc (max (OMAP3_PRM_IRQ_VDD_MPU_ID P) (OMAP3_PRM_IRQ_VDD_CORE_ID P)))
        \<lparr>vp_tranxdone_status = 0, abb_tranxdone_status = 0\<rparr>)
     [OMAP3_PRM_IRQ_VDD_MPU_ID P :=
        \<lparr>vp_tranxdone_status = OMAP3430_VP1_TRANXDONE_ST_MASK P,
         abb_tranxdone_status = OMAP3630_ABB_LDO_TRANXDONE_ST_MASK P\<rparr>,
      OMAP3_PRM_IRQ_VDD_CORE_ID P :=
        \<lparr>vp_tranxdone_status = OMAP3430_VP2_TRANXDONE_ST_MASK P,
         abb_tranxdone_status = 0\<rparr>]"

text \<open>
  \<open>irq->field\<close> for \<open>irq = &omap3_prm_irqs[irq_id]\<close>: reading through a pointer
  beyond the array is undefined.
\<close>

definition irq_field :: "'d platform \<Rightarrow> u8 \<Rightarrow> (omap3_prm_irq \<Rightarrow> u32) \<Rightarrow> (u32, 'd) io" where
  "irq_field P irq_id field =
     (if unat irq_id < length (omap3_prm_irqs P)
      then io_return (field (omap3_prm_irqs P ! unat irq_id))
      else io_fail Undefined_behaviour)"

definition omap3_prm_vp_check_txdone :: "'d platform \<Rightarrow> u8 \<Rightarrow> (u32, 'd) io" where
  "omap3_prm_vp_check_txdone P irq_id =
     io_bind (omap2_prm_read_mod_reg P (OCP_MOD P) (OMAP3_PRM_IRQSTATUS_MPU_OFFSET P))
       (\<lambda>irqstatus.
     io_bind (irq_field P irq_id vp_tranxdone_status) (\<lambda>m.
     io_return (irqstatus AND m)))"

definition omap3_prm_vp_clear_txdone :: "'d platform \<Rightarrow> u8 \<Rightarrow> (unit, 'd) io" where
  "omap3_prm_vp_clear_txdone P irq_id =
     io_bind (irq_field P irq_id vp_tranxdone_status) (\<lambda>m.
     omap2_prm_write_mod_reg P m (OCP_MOD P) (OMAP3_PRM_IRQSTATUS_MPU_OFFSET P))"

definition omap36xx_prm_abb_check_txdone :: "'d platform \<Rightarrow> u8 \<Rightarrow> (u32, 'd) io" where
  "omap36xx_prm_abb_check_txdone P irq_id =
     io_bind (omap2_prm_read_mod_reg P (OCP_MOD P) (OMAP3_PRM_IRQSTATUS_MPU_OFFSET P))
       (\<lambda>irqstatus.
     io_bind (irq_field P irq_id abb_tranxdone_status) (\<lambda>m.
     io_return (irqstatus AND m)))"

definition omap36xx_prm_abb_clear_txdone :: "'d platform \<Rightarrow> u8 \<Rightarrow> (unit, 'd) io" where
  "omap36xx_prm_abb_clear_txdone P irq_id =
     io_bind (irq_field P irq_id abb_tranxdone_status) (\<lambda>m.
     omap2_prm_write_mod_reg P m (OCP_MOD P) (OMAP3_PRM_IRQSTATUS_MPU_OFFSET P))"

definition omap3_prm_vcvp_read :: "'d platform \<Rightarrow> u8 \<Rightarrow> (u32, 'd) io" where
  "omap3_prm_vcvp_read P offset = omap2_prm_read_mod_reg P (OMAP3430_GR_MOD P) (ucast offset)"

definition omap3_prm_vcvp_write :: "'d platform \<Rightarrow> u32 \<Rightarrow> u8 \<Rightarrow> (unit, 'd) io" where
  "omap3_prm_vcvp_write P val offset =
     omap2_prm_write_mod_reg P val (OMAP3430_GR_MOD P) (ucast offset)"

definition omap3_prm_vcvp_rmw :: "'d platform \<Rightarrow> u32 \<Rightarrow> u32 \<Rightarrow> u8 \<Rightarrow> (u32, 'd) io" where
  "omap3_prm_vcvp_rmw P msk bits offset =
     omap2_prm_rmw_mod_reg_bits P msk bits (OMAP3430_GR_MOD P) (ucast offset)"

subsection \<open>Register router (CONFIG\_MACH\_OMAP\_LATONA)\<close>

definition DEFAULT_BASE :: u32 where "DEFAULT_BASE = 0x0"
definition PRM_BASE :: u32 where "PRM_BASE = 0x1"
definition PRCM_MPU_BASE :: u32 where "PRCM_MPU_BASE = 0x2"
definition CM2_BASE :: u32 where "CM2_BASE = 0x3"
definition BASE_ID_SHIFT :: nat where "BASE_ID_SHIFT = 13"
definition BASE_ID_MASK :: u32 where "BASE_ID_MASK = 0x3"
definition MOD_MASK :: s16 where "MOD_MASK = 0x1FFF"

text \<open>\<open>__omap_prcm_read\<close> and \<open>__omap_prcm_write\<close>; \<open>BUG_ON(!base)\<close> stops the call.\<close>

definition omap_prcm_read :: "'d platform \<Rightarrow> iomem \<Rightarrow> s16 \<Rightarrow> u16 \<Rightarrow> (u32, 'd) io" where
  "omap_prcm_read P base module reg =
     (if base = 0 then io_fail Kernel_BUG else raw_readl P (reg_addr base module reg))"

definition omap_prcm_write :: "'d platform \<Rightarrow> u32 \<Rightarrow> iomem \<Rightarrow> s16 \<Rightarrow> u16 \<Rightarrow> (unit, 'd) io" where
  "omap_prcm_write P val base module reg =
     (if base = 0 then io_fail Kernel_BUG else raw_writel P val (reg_addr base module reg))"

text \<open>
  \<open>abs(module) >> BASE_ID_SHIFT\<close>: the kernel's \<open>abs\<close> macro (linux/kernel.h)
  widens its argument to a signed integer and returns its absolute value.
\<close>

definition base_of :: "s16 \<Rightarrow> u32" where
  "base_of module = drop_bit BASE_ID_SHIFT (word_of_int \<bar>sint module\<bar>)"

definition cm_read_mod_reg :: "'d platform \<Rightarrow> s16 \<Rightarrow> u16 \<Rightarrow> (u32, 'd) io" where
  "cm_read_mod_reg P module0 idx =
     (let base = base_of module0;
          module = module0 AND MOD_MASK
      in if base = PRM_BASE then omap_prcm_read P (prm_base P) module idx
         else if base = CM2_BASE then omap_prcm_read P (cm2_base P) module idx
         else if base = DEFAULT_BASE then omap_prcm_read P (cm_base P) module idx
         else io_bind (pr_err ''Unknown CM submodule base\<newline>'') (\<lambda>_. io_return 0))"

definition cm_write_mod_reg :: "'d platform \<Rightarrow> u32 \<Rightarrow> s16 \<Rightarrow> u16 \<Rightarrow> (unit, 'd) io" where
  "cm_write_mod_reg P val module0 idx =
     (let base = base_of module0;
          module = module0 AND MOD_MASK
      in if base = PRM_BASE then omap_prcm_write P val (prm_base P) module idx
         else if base = CM2_BASE then omap_prcm_write P val (cm2_base P) module idx
         else if base = DEFAULT_BASE then omap_prcm_write P val (cm_base P) module idx
         else pr_err ''Unknown CM submodule base\<newline>'')"

text \<open>
  The encoding of the \<open>module\<close> argument, in the spec's words: a 2-bit base
  selector in the high bits and a 13-bit module offset in the low bits, which is
  how the macros \<open>PRM_BASE_ID\<close>, \<open>PRCM_MPU_BASE_ID\<close> and \<open>CM2_BASE_ID\<close>
  (a base shifted left by \<open>BASE_ID_SHIFT\<close>) combine with an offset.
\<close>

definition encoded_module :: "2 word \<Rightarrow> 13 word \<Rightarrow> s16" where
  "encoded_module sel off = push_bit BASE_ID_SHIFT (ucast sel) OR ucast off"

subsection \<open>A simulated PRM block\<close>

text \<open>
  A small device on which the functions can be run: the reset control register of
  one module (plain storage), its reset status register and the MPU interrupt
  status register (both cleared by writing 1). Once reset line 0 has been
  deasserted for \<open>sim_latency\<close> microseconds, the device raises status bit 8.
\<close>

record sim =
  sim_rstctrl :: u32
  sim_rstst :: u32
  sim_irqstatus :: u32
  sim_elapsed :: nat
  sim_latency :: nat

definition sim_readl :: "iomem \<Rightarrow> sim \<Rightarrow> u32" where
  "sim_readl a d =
     (if a = 0x48306050 then sim_rstctrl d
      else if a = 0x48306058 then sim_rstst d
      else if a = 0x48306818 then sim_irqstatus d
      else 0)"

definition sim_writel :: "u32 \<Rightarrow> iomem \<Rightarrow> sim \<Rightarrow> sim" where
  "sim_writel v a d =
     (if a = 0x48306050 then d\<lparr>sim_rstctrl := v, sim_elapsed := 0\<rparr>
      else if a = 0x48306058 then d\<lparr>sim_rstst := sim_rstst d AND NOT v\<rparr>
      else if a = 0x48306818 then d\<lparr>sim_irqstatus := sim_irqstatus d AND NOT v\<rparr>
      else d)"

definition sim_udelay :: "nat \<Rightarrow> sim \<Rightarrow> sim" where
  "sim_udelay n d =
     (let e = sim_elapsed d + n
      in d\<lparr>sim_elapsed := e,
           sim_rstst := (if \<not> bit (sim_rstctrl d) 0 \<and> sim_latency d \<le> e
                         then sim_rstst d OR 0x100 else sim_rstst d)\<rparr>)"

definition omap3430 :: "sim platform" where
  "omap3430 =
     \<lparr>hw_readl = sim_readl, hw_writel = sim_writel, hw_udelay = sim_udelay,
      cpu_is_omap24xx = False, cpu_is_omap34xx = True,
      prm_base = 0x48306800, cm_base = 0x48004800, cm2_base = 0,
      OMAP2_RM_RSTCTRL = 0x50, OMAP2_RM_RSTST = 0x58,
      MAX_MODULE_HARDRESET_WAIT = 10000,
      OCP_MOD = 0x0, OMAP3430_GR_MOD = 0x200,
      OMAP3_PRM_IRQSTATUS_MPU_OFFSET = 0x18,
      OMAP3_PRM_IRQ_VDD_MPU_ID = 0, OMAP3_PRM_IRQ_VDD_CORE_ID = 1,
      OMAP3430_VP1_TRANXDONE_ST_MASK = 0x8000,
      OMAP3430_VP2_TRANXDONE_ST_MASK = 0x200000,
      OMAP3630_ABB_LDO_TRANXDONE_ST_MASK = 0x4000000\<rparr>"

text \<open>The IVA2 module (offset \<open>-0x800\<close>) held in reset, nothing pending.\<close>

definition iva2_mod :: s16 where
  "iva2_mod = - 0x800"

definition in_reset :: "nat \<Rightarrow> sim machine" where
  "in_reset latency =
     \<lparr>dev = \<lparr>sim_rstctrl = 0x7, sim_rstst = 0x100, sim_irqstatus = 0x208000,
              sim_elapsed = 0, sim_latency = latency\<rparr>,
      trace = []\<rparr>"

section \<open>Properties\<close>

subsection \<open>Shared facts\<close>

lemma rmw_unfold:
  "omap2_prm_rmw_mod_reg_bits P msk bits module idx s =
     (let a = reg_addr (prm_base P) module idx;
          v0 = hw_readl P a (dev s);
          w = (v0 AND NOT msk) OR bits
      in (Inr w, \<lparr>dev = hw_writel P w a (dev s),
                  trace = trace s @ [Readl a v0, Writel a w]\<rparr>))"
  by (simp add: omap2_prm_rmw_mod_reg_bits_def omap2_prm_read_mod_reg_def
      omap2_prm_write_mod_reg_def raw_readl_def raw_writel_def io_bind_def io_return_def
      Let_def)

lemma writes_of_append: "writes_of (xs @ ys) = writes_of xs @ writes_of ys"
  by (induction xs rule: writes_of.induct) simp_all

lemma ffs_Some_iff: "ffs w = Some n \<longleftrightarrow> bit w n \<and> (\<forall>j<n. \<not> bit w j)"
proof
  assume "ffs w = Some n"
  then show "bit w n \<and> (\<forall>j<n. \<not> bit w j)"
    by (auto simp: ffs_def find_Some_iff)
next
  assume h: "bit w n \<and> (\<forall>j<n. \<not> bit w j)"
  then have "n < 32" using bit_imp_le_length [of w n] by simp
  with h show "ffs w = Some n"
    by (auto simp: ffs_def find_Some_iff intro!: exI [of _ n])
qed

lemma ffs_None_iff: "ffs w = None \<longleftrightarrow> w = 0"
proof
  assume "ffs w = None"
  then have "\<forall>i<32. \<not> bit w i" by (auto simp: ffs_def find_None_iff)
  then show "w = 0" by (intro bit_word_eqI) simp
next
  assume "w = 0" then show "ffs w = None" by (simp add: ffs_def find_None_iff)
qed

lemma ffs_zero: "ffs 0 = None"
  by (simp add: ffs_None_iff)

lemma ffs_single: "n < 32 \<Longrightarrow> ffs (2 ^ n) = Some n"
  by (simp add: ffs_Some_iff bit_simps)

lemma extract_single: "n < 32 \<Longrightarrow> drop_bit n ((v :: u32) AND 2 ^ n) = (if bit v n then 1 else 0)"
  by (rule bit_word_eqI) (auto simp: bit_simps intro!: gr0I)

lemma read_mod_reg_unfold:
  "omap2_prm_read_mod_reg P module idx s =
     (Inr (hw_readl P (reg_addr (prm_base P) module idx) (dev s)),
      s\<lparr>trace := trace s @ [Readl (reg_addr (prm_base P) module idx)
                                  (hw_readl P (reg_addr (prm_base P) module idx) (dev s))]\<rparr>)"
  by (simp add: omap2_prm_read_mod_reg_def raw_readl_def Let_def)

lemma write_mod_reg_unfold:
  "omap2_prm_write_mod_reg P v module idx s =
     (Inr (), \<lparr>dev = hw_writel P v (reg_addr (prm_base P) module idx) (dev s),
               trace = trace s @ [Writel (reg_addr (prm_base P) module idx) v]\<rparr>)"
  by (simp add: omap2_prm_write_mod_reg_def raw_writel_def)

lemma read_bit_unfold:
  assumes "n < 32"
  shows "omap2_prm_read_mod_bits_shift P module idx (2 ^ n) s =
     (Inr (if bit (hw_readl P (reg_addr (prm_base P) module idx) (dev s)) n then 1 else 0),
      s\<lparr>trace := trace s @ [Readl (reg_addr (prm_base P) module idx)
                                  (hw_readl P (reg_addr (prm_base P) module idx) (dev s))]\<rparr>)"
proof -
  let ?a = "reg_addr (prm_base P) module idx"
  have "omap2_prm_read_mod_bits_shift P module idx (2 ^ n) s =
     (Inr (drop_bit n (hw_readl P ?a (dev s) AND 2 ^ n)),
      s\<lparr>trace := trace s @ [Readl ?a (hw_readl P ?a (dev s))]\<rparr>)"
    using assms
    by (simp add: omap2_prm_read_mod_bits_shift_def read_mod_reg_unfold io_bind_def
        io_return_def ffs_single Let_def)
  then show ?thesis using assms by (simp only: extract_single)
qed

lemma poll_bit:
  assumes n: "n < 32"
  shows "i \<le> timeout \<Longrightarrow>
    \<exists>c s'. omap_test_timeout P
             (omap2_prm_read_mod_bits_shift P module idx (2 ^ n)) timeout i s
             = (Inr c, s')
      \<and> i \<le> c \<and> c \<le> timeout
      \<and> dev s' = (hw_udelay P 1 ^^ (c - i)) (dev s)
      \<and> (\<exists>rest. trace s' = trace s @ rest \<and> writes_of rest = [])
      \<and> (c < timeout \<longrightarrow> bit (hw_readl P (reg_addr (prm_base P) module idx) (dev s')) n)
      \<and> (\<forall>j<c - i. \<not> bit (hw_readl P (reg_addr (prm_base P) module idx)
                                ((hw_udelay P 1 ^^ j) (dev s))) n)"
proof (induction "timeout - i" arbitrary: i s)
  case 0
  then have "i = timeout" by simp
  then show ?case by (simp add: omap_test_timeout.simps)
next
  case (Suc m)
  then have lt: "i < timeout" by simp
  let ?a = "reg_addr (prm_base P) module idx"
  let ?s1 = "s\<lparr>trace := trace s @ [Readl ?a (hw_readl P ?a (dev s))]\<rparr>"
  show ?case
  proof (cases "bit (hw_readl P ?a (dev s)) n")
    case True
    with lt n show ?thesis
      by (simp add: omap_test_timeout.simps [of _ _ timeout i] read_bit_unfold)
  next
    case False
    let ?s2 = "snd (udelay P 1 ?s1)"
    have m: "m = timeout - Suc i" using Suc.hyps(2) by simp
    have le: "Suc i \<le> timeout" using lt by simp
    from Suc.hyps(1) [OF m le, of ?s2]
    obtain c s' where r: "omap_test_timeout P
             (omap2_prm_read_mod_bits_shift P module idx (2 ^ n)) timeout (Suc i) ?s2
             = (Inr c, s')"
      and c: "Suc i \<le> c" "c \<le> timeout"
      and d: "dev s' = (hw_udelay P 1 ^^ (c - Suc i)) (dev ?s2)"
      and w: "\<exists>rest. trace s' = trace ?s2 @ rest \<and> writes_of rest = []"
      and b: "c < timeout \<longrightarrow> bit (hw_readl P ?a (dev s')) n"
      and nb: "\<forall>j<c - Suc i. \<not> bit (hw_readl P ?a ((hw_udelay P 1 ^^ j) (dev ?s2))) n"
      by blast
    have dev2: "dev ?s2 = hw_udelay P 1 (dev s)" by (simp add: udelay_def)
    have run: "omap_test_timeout P
             (omap2_prm_read_mod_bits_shift P module idx (2 ^ n)) timeout i s = (Inr c, s')"
      using lt n False r
      by (simp add: omap_test_timeout.simps [of _ _ timeout i] read_bit_unfold)
    have d': "dev s' = (hw_udelay P 1 ^^ (c - i)) (dev s)"
    proof -
      have "c - i = Suc (c - Suc i)" using c by simp
      then show ?thesis using d dev2 by (simp add: funpow_swap1)
    qed
    have w': "\<exists>rest. trace s' = trace s @ rest \<and> writes_of rest = []"
    proof -
      from w obtain rest where "trace s' = trace ?s2 @ rest" "writes_of rest = []" by blast
      then have "trace s' = trace s @ (Readl ?a (hw_readl P ?a (dev s)) # Udelay 1 # rest)
          \<and> writes_of (Readl ?a (hw_readl P ?a (dev s)) # Udelay 1 # rest) = []"
        by (simp add: udelay_def)
      then show ?thesis by blast
    qed
    have nb': "\<not> bit (hw_readl P ?a ((hw_udelay P 1 ^^ j) (dev s))) n" if "j < c - i" for j
    proof (cases j)
      case 0
      then show ?thesis using False by simp
    next
      case (Suc j')
      then have "j' < c - Suc i" using that by simp
      with nb have "\<not> bit (hw_readl P ?a ((hw_udelay P 1 ^^ j') (dev ?s2))) n" by blast
      then show ?thesis using Suc dev2 by (simp add: funpow_swap1)
    qed
    from run c d' w' b nb' show ?thesis by auto
  qed
qed

lemma clear_all_bits: "((v :: u32) AND NOT 0xffffffff) OR b = b"
proof -
  have "(0xffffffff :: u32) = - 1" by simp
  then show ?thesis by (simp only: bit.compl_one and_zero_eq or.left_neutral word_bitwise_m1_simps)
qed

lemma deassert_asserted:
  fixes P :: "'d platform" and prm_mod :: s16 and rst_shift st_shift :: u8
    and s :: "'d machine"
  defines "a_ctrl \<equiv> reg_addr (prm_base P) prm_mod (OMAP2_RM_RSTCTRL P)"
    and "a_st \<equiv> reg_addr (prm_base P) prm_mod (OMAP2_RM_RSTST P)"
  defines "d1 \<equiv> hw_writel P (2 ^ unat st_shift) a_st (dev s)"
  defines "w \<equiv> hw_readl P a_ctrl d1 AND NOT (2 ^ unat rst_shift)"
  defines "d2 \<equiv> hw_writel P w a_ctrl d1"
  assumes chip: "cpu_is_omap24xx P \<or> cpu_is_omap34xx P"
    and shifts: "unat rst_shift < 32" "unat st_shift < 32"
    and asserted: "bit (hw_readl P a_ctrl (dev s)) (unat rst_shift)"
  shows "\<exists>c s' rest.
      omap2_prm_deassert_hardreset P prm_mod rst_shift st_shift s =
        (Inr (if c = MAX_MODULE_HARDRESET_WAIT P then - EBUSY else 0), s')
    \<and> c \<le> MAX_MODULE_HARDRESET_WAIT P
    \<and> dev s' = (hw_udelay P 1 ^^ c) d2
    \<and> trace s' = trace s @
         [Readl a_ctrl (hw_readl P a_ctrl (dev s)),
          Readl a_st (hw_readl P a_st (dev s)),
          Writel a_st (2 ^ unat st_shift),
          Readl a_ctrl (hw_readl P a_ctrl d1),
          Writel a_ctrl w] @ rest
    \<and> writes_of rest = []
    \<and> (c < MAX_MODULE_HARDRESET_WAIT P \<longrightarrow> bit (hw_readl P a_st (dev s')) (unat st_shift))
    \<and> (\<forall>j<c. \<not> bit (hw_readl P a_st ((hw_udelay P 1 ^^ j) d2)) (unat st_shift))"
proof -
  let ?s1 = "s\<lparr>trace := trace s @ [Readl a_ctrl (hw_readl P a_ctrl (dev s))]\<rparr>"
  let ?s2 = "\<lparr>dev = d1, trace = trace ?s1 @
       [Readl a_st (hw_readl P a_st (dev s)), Writel a_st (2 ^ unat st_shift)]\<rparr>"
  let ?s3 = "\<lparr>dev = d2, trace = trace ?s2 @
       [Readl a_ctrl (hw_readl P a_ctrl d1), Writel a_ctrl w]\<rparr>"
  have r1: "omap2_prm_read_mod_bits_shift P prm_mod (OMAP2_RM_RSTCTRL P) (2 ^ unat rst_shift) s
      = (Inr 1, ?s1)"
    using shifts asserted by (simp add: read_bit_unfold a_ctrl_def)
  have r2: "omap2_prm_rmw_mod_reg_bits P 0xffffffff (2 ^ unat st_shift) prm_mod (OMAP2_RM_RSTST P) ?s1
      = (Inr (2 ^ unat st_shift), ?s2)"
    by (simp only: rmw_unfold Let_def clear_all_bits) (simp add: a_st_def d1_def)
  have r3: "omap2_prm_rmw_mod_reg_bits P (2 ^ unat rst_shift) 0 prm_mod (OMAP2_RM_RSTCTRL P) ?s2
      = (Inr w, ?s3)"
    by (simp add: rmw_unfold a_ctrl_def w_def d2_def Let_def)
  from poll_bit [OF shifts(2), of 0 "MAX_MODULE_HARDRESET_WAIT P" P prm_mod "OMAP2_RM_RSTST P" ?s3]
  obtain c s' rest where
    r4: "omap_test_timeout P
           (omap2_prm_read_mod_bits_shift P prm_mod (OMAP2_RM_RSTST P) (2 ^ unat st_shift))
           (MAX_MODULE_HARDRESET_WAIT P) 0 ?s3 = (Inr c, s')"
    and c: "c \<le> MAX_MODULE_HARDRESET_WAIT P"
    and d: "dev s' = (hw_udelay P 1 ^^ c) d2"
    and t: "trace s' = trace ?s3 @ rest" "writes_of rest = []"
    and b: "c < MAX_MODULE_HARDRESET_WAIT P \<longrightarrow> bit (hw_readl P a_st (dev s')) (unat st_shift)"
    and nb: "\<forall>j<c. \<not> bit (hw_readl P a_st ((hw_udelay P 1 ^^ j) d2)) (unat st_shift)"
    by (auto simp: a_st_def)
  have run: "omap2_prm_deassert_hardreset P prm_mod rst_shift st_shift s =
        (Inr (if c = MAX_MODULE_HARDRESET_WAIT P then - EBUSY else 0), s')"
    using chip shifts r1 r2 r3 r4
    by (simp add: omap2_prm_deassert_hardreset_def shl_one_def io_bind_def io_return_def)
  from run c d t b nb show ?thesis by auto
qed

lemma irqs_length:
  "length (omap3_prm_irqs P) =
     Suc (max (OMAP3_PRM_IRQ_VDD_MPU_ID P) (OMAP3_PRM_IRQ_VDD_CORE_ID P))"
  by (simp add: omap3_prm_irqs_def del: replicate_Suc)

lemma irqs_core:
  "omap3_prm_irqs P ! OMAP3_PRM_IRQ_VDD_CORE_ID P =
     \<lparr>vp_tranxdone_status = OMAP3430_VP2_TRANXDONE_ST_MASK P, abb_tranxdone_status = 0\<rparr>"
  by (simp add: omap3_prm_irqs_def del: replicate_Suc)

lemma encoded_module_bits:
  "bit (encoded_module sel off) i \<longleftrightarrow>
     (i < 13 \<and> bit off i) \<or> (13 \<le> i \<and> i < 15 \<and> bit sel (i - 13))"
  by (auto simp: encoded_module_def BASE_ID_SHIFT_def bit_simps dest: bit_imp_le_length)

lemma encoded_module_top: "\<not> bit (encoded_module sel off) 15"
  by (simp add: encoded_module_bits)

lemma encoded_module_nonneg: "0 \<le> sint (encoded_module sel off)"
  using bit_last_iff [of "encoded_module sel off"] encoded_module_top [of sel off] by simp

lemma base_of_encoded: "base_of (encoded_module sel off) = ucast sel"
proof -
  let ?m = "encoded_module sel off"
  have "\<bar>sint ?m\<bar> = sint ?m"
    using encoded_module_nonneg [of sel off] by simp
  then have "base_of ?m = drop_bit 13 (scast ?m)"
    by (simp add: base_of_def BASE_ID_SHIFT_def)
  also have "(scast ?m :: u32) = ucast ?m"
    by (rule bit_word_eqI) (use encoded_module_top [of sel off] in
        \<open>auto simp: bit_word_scast_iff bit_ucast_iff dest: bit_imp_le_length\<close>)
  also have "drop_bit 13 (ucast ?m :: u32) = ucast sel"
    by (rule bit_word_eqI)
      (auto simp: bit_drop_bit_eq bit_ucast_iff encoded_module_bits dest: bit_imp_le_length)
  finally show ?thesis .
qed

lemma offset_of_encoded: "encoded_module sel off AND MOD_MASK = ucast off"
proof -
  have mm: "MOD_MASK = mask 13" by (simp add: MOD_MASK_def mask_eq_exp_minus_1)
  show ?thesis
    unfolding mm
    by (rule bit_word_eqI)
      (auto simp: bit_and_iff bit_mask_iff bit_ucast_iff encoded_module_bits
        dest: bit_imp_le_length)
qed

lemma scast_offset: "(scast (ucast (off :: 13 word) :: s16) :: u32) = ucast off"
  by (rule bit_word_eqI)
    (auto simp: bit_word_scast_iff bit_ucast_iff dest: bit_imp_le_length)

lemma selector_cases: "(sel :: 2 word) = 0 \<or> sel = 1 \<or> sel = 2 \<or> sel = 3"
proof -
  have "unat sel < 4" using unsigned_less [of sel, where 'a = nat] by simp
  then have "unat sel = 0 \<or> unat sel = 1 \<or> unat sel = 2 \<or> unat sel = 3" by arith
  then show ?thesis by (auto simp: word_unat_eq_iff)
qed

lemma prcm_read_unfold:
  "omap_prcm_read P base module reg s =
     (if base = 0 then (Inl Kernel_BUG, s)
      else (Inr (hw_readl P (reg_addr base module reg) (dev s)),
            s\<lparr>trace := trace s @ [Readl (reg_addr base module reg)
                                       (hw_readl P (reg_addr base module reg) (dev s))]\<rparr>))"
  by (simp add: omap_prcm_read_def io_fail_def raw_readl_def Let_def)

lemma prcm_write_unfold:
  "omap_prcm_write P val base module reg s =
     (if base = 0 then (Inl Kernel_BUG, s)
      else (Inr (), \<lparr>dev = hw_writel P val (reg_addr base module reg) (dev s),
                     trace = trace s @ [Writel (reg_addr base module reg) val]\<rparr>))"
  by (simp add: omap_prcm_write_def io_fail_def raw_writel_def)

text \<open>The simulated block, for running the functions on concrete inputs.\<close>

lemma sim_addrs:
  "reg_addr (prm_base omap3430) iva2_mod (OMAP2_RM_RSTCTRL omap3430) = 0x48306050"
  "reg_addr (prm_base omap3430) iva2_mod (OMAP2_RM_RSTST omap3430) = 0x48306058"
  "reg_addr (prm_base omap3430) (OCP_MOD omap3430) (OMAP3_PRM_IRQSTATUS_MPU_OFFSET omap3430)
     = 0x48306818"
  by (simp_all add: reg_addr_def omap3430_def iva2_mod_def)

lemma sim_ops:
  "hw_readl omap3430 = sim_readl"
  "hw_writel omap3430 = sim_writel"
  "hw_udelay omap3430 = sim_udelay"
  "cpu_is_omap34xx omap3430"
  "MAX_MODULE_HARDRESET_WAIT omap3430 = 10000"
  by (simp_all add: omap3430_def)

lemma sim_stuck:
  "sim_rstst ((sim_udelay (Suc 0) ^^ k) d) = (if \<not> bit (sim_rstctrl d) 0 \<and> sim_latency d \<le> sim_elapsed d + k \<and> 0 < k then sim_rstst d OR 0x100 else sim_rstst d)
   \<and> sim_rstctrl ((sim_udelay (Suc 0) ^^ k) d) = sim_rstctrl d
   \<and> sim_latency ((sim_udelay (Suc 0) ^^ k) d) = sim_latency d
   \<and> sim_elapsed ((sim_udelay (Suc 0) ^^ k) d) = sim_elapsed d + k"
proof (induction k)
  case 0
  then show ?case by simp
next
  case (Suc k)
  then show ?case
    by (auto simp: sim_udelay_def Let_def or.assoc)
qed

lemma sim_irqs:
  "omap3_prm_irqs omap3430 =
      [\<lparr>vp_tranxdone_status = 0x8000, abb_tranxdone_status = 0x4000000\<rparr>,
       \<lparr>vp_tranxdone_status = 0x200000, abb_tranxdone_status = 0\<rparr>]"
  by (simp add: omap3_prm_irqs_def omap3430_def)

subsection \<open>Read-modify-write leaves the other bits alone\<close>

text \<open>
  C2. For every mask and bits with bits a subset of mask, and every prior value of
  the register, \<open>omap2_prm_rmw_mod_reg_bits\<close> reads the register once and
  writes it once; the value written agrees with bits inside the mask and with the
  prior value outside it, it is the value returned, and it is what the register
  holds afterwards when the register is plain storage (a read after a write gives
  what was written).
\<close>

theorem rmw_mod_reg_bits_masked:
  fixes P :: "'d platform" and module idx :: s16 and s :: "'d machine"
  defines "a \<equiv> reg_addr (prm_base P) module idx"
  assumes sub: "bits AND msk = bits"
    and storage: "\<forall>v d. hw_readl P a (hw_writel P v a d) = v"
  shows "\<exists>w s'. omap2_prm_rmw_mod_reg_bits P msk bits module idx s = (Inr w, s')
      \<and> hw_readl P a (dev s') = w
      \<and> w AND msk = bits
      \<and> w AND NOT msk = hw_readl P a (dev s) AND NOT msk
      \<and> trace s' = trace s @ [Readl a (hw_readl P a (dev s)), Writel a w]"
proof -
  let ?v = "hw_readl P a (dev s)"
  let ?w = "(?v AND NOT msk) OR bits"
  have m: "?w AND msk = bits"
  proof -
    have "?w AND msk = bits AND msk" by (simp add: bit.conj_disj_distrib2 and.assoc)
    with sub show ?thesis by simp
  qed
  have nm: "?w AND NOT msk = ?v AND NOT msk"
  proof -
    have "bits AND NOT msk = (bits AND msk) AND NOT msk" using sub by simp
    also have "\<dots> = 0" by (simp add: and.assoc)
    finally show ?thesis by (simp add: bit.conj_disj_distrib2 and.assoc)
  qed
  from m nm storage show ?thesis
    by (simp add: rmw_unfold Let_def a_def)
qed

theorem rmw_mod_reg_bits_masked_witness:
  "(0x2 :: u32) AND 0x6 = 0x2
   \<and> (\<forall>v d. sim_readl 0x48306050 (sim_writel v 0x48306050 d) = v)
   \<and> (\<exists>w s'. omap2_prm_rmw_mod_reg_bits omap3430 0x6 0x2 iva2_mod 0x50 (in_reset 0) = (Inr w, s')
      \<and> sim_readl 0x48306050 (dev s') = w
      \<and> w AND 0x6 = 0x2
      \<and> w AND NOT 0x6 = 0x7 AND NOT 0x6
      \<and> trace s' = [Readl 0x48306050 0x7, Writel 0x48306050 w])"
proof -
  have a: "reg_addr (prm_base omap3430) iva2_mod 0x50 = 0x48306050"
    by (simp add: reg_addr_def omap3430_def iva2_mod_def)
  have sub: "(0x2 :: u32) AND 0x6 = 0x2" by simp
  have st: "\<forall>v d. hw_readl omap3430 (reg_addr (prm_base omap3430) iva2_mod 0x50)
       (hw_writel omap3430 v (reg_addr (prm_base omap3430) iva2_mod 0x50) d) = v"
    unfolding a by (simp add: omap3430_def sim_readl_def sim_writel_def)
  have rd: "hw_readl omap3430 0x48306050 (dev (in_reset 0)) = 0x7"
    by (simp add: omap3430_def sim_readl_def in_reset_def)
  from rmw_mod_reg_bits_masked [OF sub st, of "in_reset 0"] sub st
  show ?thesis
    unfolding a rd by (simp add: omap3430_def in_reset_def)
qed

subsection \<open>Deasserting a hardreset line\<close>

text \<open>
  C1. On a supported chip, with both shifts naming bits of a 32-bit register, when
  \<open>omap2_prm_deassert_hardreset\<close> is called with the reset control bit set and the status bit reads as set at some poll within the
  budget (\<open>k\<close> microseconds after the control write, \<open>k\<close> below
  \<open>MAX_MODULE_HARDRESET_WAIT\<close>), the call writes twice: first the status bit to
  the reset status register, then the control register with the reset bit cleared;
  nothing is written after that, and the call returns 0.
\<close>

theorem deassert_hardreset_success:
  fixes P :: "'d platform" and prm_mod :: s16 and rst_shift st_shift :: u8
    and s :: "'d machine"
  defines "a_ctrl \<equiv> reg_addr (prm_base P) prm_mod (OMAP2_RM_RSTCTRL P)"
    and "a_st \<equiv> reg_addr (prm_base P) prm_mod (OMAP2_RM_RSTST P)"
  defines "d1 \<equiv> hw_writel P (push_bit (unat st_shift) 1) a_st (dev s)"
  defines "w \<equiv> hw_readl P a_ctrl d1 AND NOT (push_bit (unat rst_shift) 1)"
  defines "d2 \<equiv> hw_writel P w a_ctrl d1"
  assumes chip: "cpu_is_omap24xx P \<or> cpu_is_omap34xx P"
    and shifts: "unat rst_shift < 32" "unat st_shift < 32"
    and asserted: "bit (hw_readl P a_ctrl (dev s)) (unat rst_shift)"
    and budget: "k < MAX_MODULE_HARDRESET_WAIT P"
    and ready: "bit (hw_readl P a_st ((hw_udelay P 1 ^^ k) d2)) (unat st_shift)"
  shows "\<exists>s' c. omap2_prm_deassert_hardreset P prm_mod rst_shift st_shift s = (Inr 0, s')
      \<and> writes_of (trace s') =
          writes_of (trace s) @ [(a_st, push_bit (unat st_shift) 1), (a_ctrl, w)]
      \<and> \<not> bit w (unat rst_shift)
      \<and> c \<le> k \<and> dev s' = (hw_udelay P 1 ^^ c) d2"
proof -
  from deassert_asserted [OF chip shifts asserted [unfolded a_ctrl_def]]
  obtain c s' rest where
    run: "omap2_prm_deassert_hardreset P prm_mod rst_shift st_shift s =
        (Inr (if c = MAX_MODULE_HARDRESET_WAIT P then - EBUSY else 0), s')"
    and c: "c \<le> MAX_MODULE_HARDRESET_WAIT P"
    and d: "dev s' = (hw_udelay P 1 ^^ c) d2"
    and t: "trace s' = trace s @
         [Readl a_ctrl (hw_readl P a_ctrl (dev s)),
          Readl a_st (hw_readl P a_st (dev s)),
          Writel a_st (2 ^ unat st_shift),
          Readl a_ctrl (hw_readl P a_ctrl d1),
          Writel a_ctrl w] @ rest"
    and r: "writes_of rest = []"
    and nb: "\<forall>j<c. \<not> bit (hw_readl P a_st ((hw_udelay P 1 ^^ j) d2)) (unat st_shift)"
    unfolding a_ctrl_def a_st_def d1_def w_def d2_def push_bit_of_1 by blast
  have ck: "c \<le> k"
  proof (rule ccontr)
    assume "\<not> c \<le> k"
    then have "k < c" by simp
    with nb ready show False by blast
  qed
  with budget have "c \<noteq> MAX_MODULE_HARDRESET_WAIT P" by simp
  with run have "omap2_prm_deassert_hardreset P prm_mod rst_shift st_shift s = (Inr 0, s')"
    by simp
  moreover have "writes_of (trace s') =
      writes_of (trace s) @ [(a_st, push_bit (unat st_shift) 1), (a_ctrl, w)]"
    using t r by (simp add: writes_of_append)
  moreover have "\<not> bit w (unat rst_shift)"
    using shifts by (simp add: w_def bit_simps)
  ultimately show ?thesis using ck d by blast
qed

theorem deassert_hardreset_success_witness:
  "\<exists>s'. omap2_prm_deassert_hardreset omap3430 iva2_mod 0 8 (in_reset 2) = (Inr 0, s')
      \<and> writes_of (trace s') = [(0x48306058, 0x100), (0x48306050, 0x6)]"
proof -
  have d: "dev (in_reset 2) = \<lparr>sim_rstctrl = 0x7, sim_rstst = 0x100, sim_irqstatus = 0x208000,
              sim_elapsed = 0, sim_latency = 2\<rparr>"
    and t: "trace (in_reset 2) = []"
    by (simp_all add: in_reset_def)
  have two: "(2::nat) = Suc (Suc 0)" by simp
  have chip: "cpu_is_omap24xx omap3430 \<or> cpu_is_omap34xx omap3430" by (simp add: sim_ops)
  have sh: "unat (0 :: u8) < 32" "unat (8 :: u8) < 32" by simp_all
  have asserted: "bit (hw_readl omap3430
      (reg_addr (prm_base omap3430) iva2_mod (OMAP2_RM_RSTCTRL omap3430)) (dev (in_reset 2)))
      (unat (0 :: u8))"
    unfolding sim_addrs sim_ops d by (simp add: sim_readl_def)
  have budget: "2 < MAX_MODULE_HARDRESET_WAIT omap3430" by (simp add: sim_ops)
  from deassert_hardreset_success [OF chip sh asserted budget, unfolded sim_addrs sim_ops d t]
  show ?thesis
    unfolding two by (simp add: sim_readl_def sim_writel_def sim_udelay_def Let_def) blast
qed

text \<open>
  C3. On a supported chip, with both shifts naming bits of a 32-bit register and
  the reset control bit set, if the status bit does not read as set at any of the
  \<open>MAX_MODULE_HARDRESET_WAIT\<close> polls, the call returns \<open>-EBUSY\<close>; the
  control register was nevertheless written with the reset bit cleared, before the
  first poll, and the polls write nothing.
\<close>

theorem deassert_hardreset_timeout:
  fixes P :: "'d platform" and prm_mod :: s16 and rst_shift st_shift :: u8
    and s :: "'d machine"
  defines "a_ctrl \<equiv> reg_addr (prm_base P) prm_mod (OMAP2_RM_RSTCTRL P)"
    and "a_st \<equiv> reg_addr (prm_base P) prm_mod (OMAP2_RM_RSTST P)"
  defines "d1 \<equiv> hw_writel P (push_bit (unat st_shift) 1) a_st (dev s)"
  defines "w \<equiv> hw_readl P a_ctrl d1 AND NOT (push_bit (unat rst_shift) 1)"
  defines "d2 \<equiv> hw_writel P w a_ctrl d1"
  assumes chip: "cpu_is_omap24xx P \<or> cpu_is_omap34xx P"
    and shifts: "unat rst_shift < 32" "unat st_shift < 32"
    and asserted: "bit (hw_readl P a_ctrl (dev s)) (unat rst_shift)"
    and never: "\<forall>k<MAX_MODULE_HARDRESET_WAIT P.
        \<not> bit (hw_readl P a_st ((hw_udelay P 1 ^^ k) d2)) (unat st_shift)"
  shows "\<exists>s' polls. omap2_prm_deassert_hardreset P prm_mod rst_shift st_shift s = (Inr (- EBUSY), s')
      \<and> trace s' = trace s @
         [Readl a_ctrl (hw_readl P a_ctrl (dev s)),
          Readl a_st (hw_readl P a_st (dev s)),
          Writel a_st (push_bit (unat st_shift) 1),
          Readl a_ctrl (hw_readl P a_ctrl d1),
          Writel a_ctrl w] @ polls
      \<and> writes_of polls = []
      \<and> \<not> bit w (unat rst_shift)
      \<and> dev s' = (hw_udelay P 1 ^^ MAX_MODULE_HARDRESET_WAIT P) d2"
proof -
  from deassert_asserted [OF chip shifts asserted [unfolded a_ctrl_def]]
  obtain c s' rest where
    run: "omap2_prm_deassert_hardreset P prm_mod rst_shift st_shift s =
        (Inr (if c = MAX_MODULE_HARDRESET_WAIT P then - EBUSY else 0), s')"
    and c: "c \<le> MAX_MODULE_HARDRESET_WAIT P"
    and d: "dev s' = (hw_udelay P 1 ^^ c) d2"
    and t: "trace s' = trace s @
         [Readl a_ctrl (hw_readl P a_ctrl (dev s)),
          Readl a_st (hw_readl P a_st (dev s)),
          Writel a_st (push_bit (unat st_shift) 1),
          Readl a_ctrl (hw_readl P a_ctrl d1),
          Writel a_ctrl w] @ rest"
    and r: "writes_of rest = []"
    and b: "c < MAX_MODULE_HARDRESET_WAIT P \<longrightarrow> bit (hw_readl P a_st (dev s')) (unat st_shift)"
    unfolding a_ctrl_def a_st_def d1_def w_def d2_def push_bit_of_1 by blast
  have cm: "c = MAX_MODULE_HARDRESET_WAIT P"
  proof (rule ccontr)
    assume "c \<noteq> MAX_MODULE_HARDRESET_WAIT P"
    with c have lt: "c < MAX_MODULE_HARDRESET_WAIT P" by simp
    with b d have "bit (hw_readl P a_st ((hw_udelay P 1 ^^ c) d2)) (unat st_shift)" by simp
    with never lt show False by blast
  qed
  have "\<not> bit w (unat rst_shift)"
    using shifts by (simp add: w_def bit_simps)
  with run cm d t r show ?thesis by auto
qed

theorem deassert_hardreset_timeout_witness:
  "\<exists>s' polls. omap2_prm_deassert_hardreset omap3430 iva2_mod 0 8 (in_reset 20000) = (Inr (- 16), s')
      \<and> trace s' = [Readl 0x48306050 0x7, Readl 0x48306058 0x100, Writel 0x48306058 0x100,
                      Readl 0x48306050 0x7, Writel 0x48306050 0x6] @ polls
      \<and> writes_of polls = []"
proof -
  have d: "dev (in_reset 20000) = \<lparr>sim_rstctrl = 0x7, sim_rstst = 0x100, sim_irqstatus = 0x208000,
              sim_elapsed = 0, sim_latency = 20000\<rparr>"
    and t: "trace (in_reset 20000) = []"
    by (simp_all add: in_reset_def)
  have chip: "cpu_is_omap24xx omap3430 \<or> cpu_is_omap34xx omap3430" by (simp add: sim_ops)
  have sh: "unat (0 :: u8) < 32" "unat (8 :: u8) < 32" by simp_all
  have asserted: "bit (hw_readl omap3430
      (reg_addr (prm_base omap3430) iva2_mod (OMAP2_RM_RSTCTRL omap3430)) (dev (in_reset 20000)))
      (unat (0 :: u8))"
    unfolding sim_addrs sim_ops d by (simp add: sim_readl_def)
  have never: "\<forall>k<MAX_MODULE_HARDRESET_WAIT omap3430.
        \<not> bit (hw_readl omap3430 (reg_addr (prm_base omap3430) iva2_mod (OMAP2_RM_RSTST omap3430))
          ((hw_udelay omap3430 1 ^^ k)
            (hw_writel omap3430
              (hw_readl omap3430 (reg_addr (prm_base omap3430) iva2_mod (OMAP2_RM_RSTCTRL omap3430))
                 (hw_writel omap3430 (push_bit (unat (8 :: u8)) 1)
                    (reg_addr (prm_base omap3430) iva2_mod (OMAP2_RM_RSTST omap3430))
                    (dev (in_reset 20000)))
               AND NOT (push_bit (unat (0 :: u8)) 1))
              (reg_addr (prm_base omap3430) iva2_mod (OMAP2_RM_RSTCTRL omap3430))
              (hw_writel omap3430 (push_bit (unat (8 :: u8)) 1)
                 (reg_addr (prm_base omap3430) iva2_mod (OMAP2_RM_RSTST omap3430))
                 (dev (in_reset 20000)))))) (unat (8 :: u8))"
    unfolding sim_addrs sim_ops d
    by (simp add: sim_readl_def sim_writel_def sim_stuck)
  from deassert_hardreset_timeout [OF chip sh asserted never, unfolded sim_addrs sim_ops d t]
  show ?thesis
    by (simp add: sim_readl_def sim_writel_def EBUSY_def) blast
qed

text \<open>
  C4. On a supported chip, with both shifts naming bits of a 32-bit register, when
  the reset control bit is already 0,
  \<open>omap2_prm_deassert_hardreset\<close> returns \<open>-EEXIST\<close> after a single read of
  the control register: it writes nothing and the device is in the state it was in
  before the call.
\<close>

theorem deassert_hardreset_already_deasserted:
  fixes P :: "'d platform" and prm_mod :: s16 and rst_shift st_shift :: u8
    and s :: "'d machine"
  defines "a_ctrl \<equiv> reg_addr (prm_base P) prm_mod (OMAP2_RM_RSTCTRL P)"
  assumes chip: "cpu_is_omap24xx P \<or> cpu_is_omap34xx P"
    and shifts: "unat rst_shift < 32" "unat st_shift < 32"
    and deasserted: "\<not> bit (hw_readl P a_ctrl (dev s)) (unat rst_shift)"
  shows "\<exists>s'. omap2_prm_deassert_hardreset P prm_mod rst_shift st_shift s = (Inr (- EEXIST), s')
      \<and> dev s' = dev s
      \<and> trace s' = trace s @ [Readl a_ctrl (hw_readl P a_ctrl (dev s))]
      \<and> writes_of (trace s') = writes_of (trace s)"
  using chip shifts deasserted
  by (simp add: omap2_prm_deassert_hardreset_def shl_one_def io_bind_def io_return_def
      read_bit_unfold a_ctrl_def writes_of_append)

theorem deassert_hardreset_already_deasserted_witness:
  "\<not> bit (sim_readl 0x48306050 (dev (in_reset 2))) 3
   \<and> (\<exists>s'. omap2_prm_deassert_hardreset omap3430 iva2_mod 3 8 (in_reset 2) = (Inr (- 17), s')
      \<and> dev s' = dev (in_reset 2)
      \<and> trace s' = [Readl 0x48306050 0x7]
      \<and> writes_of (trace s') = [])"
proof -
  have chip: "cpu_is_omap24xx omap3430 \<or> cpu_is_omap34xx omap3430" by (simp add: sim_ops)
  have sh: "unat (3 :: u8) < 32" "unat (8 :: u8) < 32" by simp_all
  have rd: "sim_readl 0x48306050 (dev (in_reset 2)) = 0x7"
    by (simp add: sim_readl_def in_reset_def)
  have t: "trace (in_reset 2) = []" by (simp add: in_reset_def)
  have de: "\<not> bit (hw_readl omap3430
      (reg_addr (prm_base omap3430) iva2_mod (OMAP2_RM_RSTCTRL omap3430)) (dev (in_reset 2)))
      (unat (3 :: u8))"
    unfolding sim_addrs sim_ops rd by simp
  from deassert_hardreset_already_deasserted [OF chip sh de, unfolded sim_addrs sim_ops rd t]
  show ?thesis unfolding rd by (simp add: EEXIST_def)
qed

text \<open>
  C10. In \<open>omap2_prm_deassert_hardreset\<close> (supported chip, shifts below 32,
  reset control bit set) the status register is cleared by a
  read-modify-write with mask \<open>0xffffffff\<close>: whatever the register held, the
  value written has the requested status bit set and every other bit zero, and it
  is the first write of the call.
\<close>

theorem deassert_hardreset_status_write:
  fixes P :: "'d platform" and prm_mod :: s16 and rst_shift st_shift :: u8
    and s :: "'d machine"
  defines "a_ctrl \<equiv> reg_addr (prm_base P) prm_mod (OMAP2_RM_RSTCTRL P)"
    and "a_st \<equiv> reg_addr (prm_base P) prm_mod (OMAP2_RM_RSTST P)"
  defines "st \<equiv> (push_bit (unat st_shift) 1 :: u32)"
  assumes chip: "cpu_is_omap24xx P \<or> cpu_is_omap34xx P"
    and shifts: "unat rst_shift < 32" "unat st_shift < 32"
    and asserted: "bit (hw_readl P a_ctrl (dev s)) (unat rst_shift)"
  shows "(\<exists>rest. trace (snd (omap2_prm_deassert_hardreset P prm_mod rst_shift st_shift s)) =
           trace s @ [Readl a_ctrl (hw_readl P a_ctrl (dev s)),
                      Readl a_st (hw_readl P a_st (dev s)),
                      Writel a_st st] @ rest)
      \<and> (\<forall>i. bit st i = (i = unat st_shift))
      \<and> omap2_prm_rmw_mod_reg_bits P 0xffffffff st prm_mod (OMAP2_RM_RSTST P) s =
          (Inr st, \<lparr>dev = hw_writel P st a_st (dev s),
                    trace = trace s @ [Readl a_st (hw_readl P a_st (dev s)), Writel a_st st]\<rparr>)"
proof -
  from deassert_asserted [OF chip shifts asserted [unfolded a_ctrl_def]]
  obtain c s' rest where
    run: "omap2_prm_deassert_hardreset P prm_mod rst_shift st_shift s =
        (Inr (if c = MAX_MODULE_HARDRESET_WAIT P then - EBUSY else 0), s')"
    and t: "trace s' = trace s @
         [Readl a_ctrl (hw_readl P a_ctrl (dev s)),
          Readl a_st (hw_readl P a_st (dev s)),
          Writel a_st st,
          Readl a_ctrl (hw_readl P a_ctrl (hw_writel P st a_st (dev s))),
          Writel a_ctrl (hw_readl P a_ctrl (hw_writel P st a_st (dev s))
                           AND NOT (2 ^ unat rst_shift))] @ rest"
    unfolding a_ctrl_def a_st_def st_def push_bit_of_1 by blast
  have one: "\<exists>rest. trace (snd (omap2_prm_deassert_hardreset P prm_mod rst_shift st_shift s)) =
           trace s @ [Readl a_ctrl (hw_readl P a_ctrl (dev s)),
                      Readl a_st (hw_readl P a_st (dev s)),
                      Writel a_st st] @ rest"
    using run t by simp
  have two: "\<forall>i. bit st i = (i = unat st_shift)"
    using shifts by (auto simp: st_def bit_simps)
  have three: "omap2_prm_rmw_mod_reg_bits P 0xffffffff st prm_mod (OMAP2_RM_RSTST P) s =
          (Inr st, \<lparr>dev = hw_writel P st a_st (dev s),
                    trace = trace s @ [Readl a_st (hw_readl P a_st (dev s)), Writel a_st st]\<rparr>)"
    by (simp only: rmw_unfold Let_def clear_all_bits a_st_def)
  from one two three show ?thesis by blast
qed

theorem deassert_hardreset_status_write_witness:
  "\<exists>rest. trace (snd (omap2_prm_deassert_hardreset omap3430 iva2_mod 0 8 (in_reset 2))) =
      [Readl 0x48306050 0x7, Readl 0x48306058 0x100, Writel 0x48306058 0x100] @ rest"
proof -
  have d: "dev (in_reset 2) = \<lparr>sim_rstctrl = 0x7, sim_rstst = 0x100, sim_irqstatus = 0x208000,
              sim_elapsed = 0, sim_latency = 2\<rparr>"
    and t: "trace (in_reset 2) = []"
    by (simp_all add: in_reset_def)
  have chip: "cpu_is_omap24xx omap3430 \<or> cpu_is_omap34xx omap3430" by (simp add: sim_ops)
  have sh: "unat (0 :: u8) < 32" "unat (8 :: u8) < 32" by simp_all
  have asserted: "bit (hw_readl omap3430
      (reg_addr (prm_base omap3430) iva2_mod (OMAP2_RM_RSTCTRL omap3430)) (dev (in_reset 2)))
      (unat (0 :: u8))"
    unfolding sim_addrs sim_ops d by (simp add: sim_readl_def)
  from deassert_hardreset_status_write [OF chip sh asserted, unfolded sim_addrs sim_ops d t]
  show ?thesis
    by (simp add: sim_readl_def)
qed

subsection \<open>The chip check comes first\<close>

text \<open>
  C6. On a chip that is neither an OMAP24xx nor an OMAP34xx, each of
  \<open>omap2_prm_is_hardreset_asserted\<close>, \<open>omap2_prm_assert_hardreset\<close> and
  \<open>omap2_prm_deassert_hardreset\<close> returns \<open>-EINVAL\<close> and leaves the machine
  as it was: no register is read or written, whatever the arguments.
\<close>

theorem hardreset_invalid_chip:
  assumes "\<not> cpu_is_omap24xx P" and "\<not> cpu_is_omap34xx P"
  shows "omap2_prm_is_hardreset_asserted P prm_mod shift s = (Inr (- EINVAL), s)
     \<and> omap2_prm_assert_hardreset P prm_mod shift s = (Inr (- EINVAL), s)
     \<and> omap2_prm_deassert_hardreset P prm_mod rst_shift st_shift s = (Inr (- EINVAL), s)"
  using assms
  by (simp add: omap2_prm_is_hardreset_asserted_def omap2_prm_assert_hardreset_def
      omap2_prm_deassert_hardreset_def io_return_def)

theorem hardreset_invalid_chip_witness:
  "\<not> cpu_is_omap24xx (omap3430\<lparr>cpu_is_omap34xx := False\<rparr>)
   \<and> \<not> cpu_is_omap34xx (omap3430\<lparr>cpu_is_omap34xx := False\<rparr>)
   \<and> omap2_prm_is_hardreset_asserted (omap3430\<lparr>cpu_is_omap34xx := False\<rparr>) iva2_mod 0 (in_reset 2)
       = (Inr (- 22), in_reset 2)
   \<and> omap2_prm_assert_hardreset (omap3430\<lparr>cpu_is_omap34xx := False\<rparr>) iva2_mod 0 (in_reset 2)
       = (Inr (- 22), in_reset 2)
   \<and> omap2_prm_deassert_hardreset (omap3430\<lparr>cpu_is_omap34xx := False\<rparr>) iva2_mod 0 8 (in_reset 2)
       = (Inr (- 22), in_reset 2)"
proof -
  have a: "\<not> cpu_is_omap24xx (omap3430\<lparr>cpu_is_omap34xx := False\<rparr>)"
    and b: "\<not> cpu_is_omap34xx (omap3430\<lparr>cpu_is_omap34xx := False\<rparr>)"
    by (simp_all add: omap3430_def)
  from hardreset_invalid_chip [OF a b, of iva2_mod 0 "in_reset 2" 0 8] a b
  show ?thesis by (simp add: EINVAL_def)
qed

subsection \<open>Bit extraction and the zero mask\<close>

text \<open>
  C5, as the code has it. \<open>omap2_prm_read_mod_bits_shift\<close> has no guard for a
  zero mask. For every non-zero mask it reads the register once and returns the
  masked value shifted down by the index of the lowest set bit of the mask. With
  mask 0 it still reads the register and then shifts by \<open>__ffs(0)\<close>, which is
  undefined: the call neither returns a value nor stops in a check of its own.
\<close>

theorem read_mod_bits_shift_no_guard:
  fixes P :: "'d platform" and domain idx :: s16 and s :: "'d machine"
  defines "a \<equiv> reg_addr (prm_base P) domain idx"
  shows "(msk \<noteq> 0 \<longrightarrow>
          (\<exists>n<32. bit msk n \<and> (\<forall>j<n. \<not> bit msk j)
             \<and> omap2_prm_read_mod_bits_shift P domain idx msk s =
                 (Inr (drop_bit n (hw_readl P a (dev s) AND msk)),
                  s\<lparr>trace := trace s @ [Readl a (hw_readl P a (dev s))]\<rparr>)))
       \<and> (msk = 0 \<longrightarrow>
            omap2_prm_read_mod_bits_shift P domain idx msk s =
              (Inl Undefined_behaviour, s\<lparr>trace := trace s @ [Readl a (hw_readl P a (dev s))]\<rparr>))"
proof (cases "msk = 0")
  case True
  then show ?thesis
    by (simp add: ffs_zero omap2_prm_read_mod_bits_shift_def read_mod_reg_unfold io_bind_def
        io_fail_def a_def)
next
  case False
  then obtain n where n: "ffs msk = Some n" using ffs_None_iff [of msk] by (cases "ffs msk") auto
  then have b: "bit msk n" "\<forall>j<n. \<not> bit msk j" by (simp_all add: ffs_Some_iff)
  then have lt: "n < 32" using bit_imp_le_length [of msk n] by simp
  have "omap2_prm_read_mod_bits_shift P domain idx msk s =
                 (Inr (drop_bit n (hw_readl P a (dev s) AND msk)),
                  s\<lparr>trace := trace s @ [Readl a (hw_readl P a (dev s))]\<rparr>)"
    using n
    by (simp add: omap2_prm_read_mod_bits_shift_def read_mod_reg_unfold io_bind_def
        io_return_def a_def)
  with False b lt show ?thesis by blast
qed

theorem read_mod_bits_shift_no_guard_witness:
  "(0xf0 :: u32) \<noteq> 0
   \<and> omap2_prm_read_mod_bits_shift omap3430 iva2_mod 0x50 0xf0 ((in_reset 2)\<lparr>dev := (dev (in_reset 2))\<lparr>sim_rstctrl := 0x5a7\<rparr>\<rparr>) =
       (Inr 0xa, (in_reset 2)\<lparr>dev := (dev (in_reset 2))\<lparr>sim_rstctrl := 0x5a7\<rparr>, trace := [Readl 0x48306050 0x5a7]\<rparr>)"
proof -
  let ?s = "(in_reset 2)\<lparr>dev := (dev (in_reset 2))\<lparr>sim_rstctrl := 0x5a7\<rparr>\<rparr>"
  have nz: "(0xf0 :: u32) \<noteq> 0" by simp
  from read_mod_bits_shift_no_guard [of "0xf0" omap3430 iva2_mod "0x50" ?s] nz
  obtain n where n: "n < 32" "bit (0xf0 :: u32) n" "\<forall>j<n. \<not> bit (0xf0 :: u32) j"
    and r: "omap2_prm_read_mod_bits_shift omap3430 iva2_mod 0x50 0xf0 ?s =
      (Inr (drop_bit n (hw_readl omap3430 (reg_addr (prm_base omap3430) iva2_mod 0x50) (dev ?s) AND 0xf0)),
       ?s\<lparr>trace := trace ?s @ [Readl (reg_addr (prm_base omap3430) iva2_mod 0x50)
           (hw_readl omap3430 (reg_addr (prm_base omap3430) iva2_mod 0x50) (dev ?s))]\<rparr>)"
    by blast
  have "ffs (0xf0 :: u32) = Some n" using n by (simp add: ffs_Some_iff)
  moreover have "ffs (0xf0 :: u32) = Some 4" by (simp add: ffs_def upt_rec bit_numeral_rec)
  ultimately have "n = 4" by simp
  with r nz show ?thesis
    by (simp add: reg_addr_def omap3430_def iva2_mod_def in_reset_def sim_readl_def drop_bit_eq_div)
qed

text \<open>
  C5 as stated (with mask 0 the helper returns 0 or fails explicitly) does not hold:
  on the simulated block the call with mask 0 reads the control register and ends
  in the undefined shift.
\<close>

theorem read_mod_bits_shift_zero_mask_counterexample:
  "ffs 0 = None
   \<and> omap2_prm_read_mod_bits_shift omap3430 iva2_mod 0x50 0 (in_reset 2) =
       (Inl Undefined_behaviour, (in_reset 2)\<lparr>trace := [Readl 0x48306050 0x7]\<rparr>)"
  by (simp add: ffs_zero omap2_prm_read_mod_bits_shift_def read_mod_reg_unfold io_bind_def
      io_fail_def reg_addr_def omap3430_def iva2_mod_def in_reset_def sim_readl_def)

subsection \<open>Transaction-done status\<close>

text \<open>
  C7. For every identifier within the table, \<open>omap3_prm_vp_check_txdone\<close> reads
  the interrupt status register once and returns its intersection with the rail's
  VP mask, so the result is non-zero exactly when the two intersect. When the
  register clears the bits written as 1 (and nothing else changes it),
  \<open>omap3_prm_vp_clear_txdone\<close> followed by \<open>omap3_prm_vp_check_txdone\<close> on
  the same rail returns 0; the only write is the rail's VP mask.
\<close>

theorem vp_txdone_check_and_clear:
  fixes P :: "'d platform" and irq_id :: u8 and s :: "'d machine"
  defines "a \<equiv> reg_addr (prm_base P) (OCP_MOD P) (OMAP3_PRM_IRQSTATUS_MPU_OFFSET P)"
  defines "m \<equiv> vp_tranxdone_status (omap3_prm_irqs P ! unat irq_id)"
  assumes valid: "unat irq_id < length (omap3_prm_irqs P)"
  shows "(\<exists>r. omap3_prm_vp_check_txdone P irq_id s =
               (Inr r, s\<lparr>trace := trace s @ [Readl a (hw_readl P a (dev s))]\<rparr>)
            \<and> r = hw_readl P a (dev s) AND m
            \<and> (r \<noteq> 0) = (hw_readl P a (dev s) AND m \<noteq> 0))
      \<and> ((\<forall>v d. hw_readl P a (hw_writel P v a d) = hw_readl P a d AND NOT v) \<longrightarrow>
           (\<exists>s'. io_bind (omap3_prm_vp_clear_txdone P irq_id)
                    (\<lambda>_. omap3_prm_vp_check_txdone P irq_id) s = (Inr 0, s')
               \<and> writes_of (trace s') = writes_of (trace s) @ [(a, m)]))"
proof -
  have f: "irq_field P irq_id vp_tranxdone_status = io_return m"
    using valid by (simp add: irq_field_def m_def)
  have chk: "omap3_prm_vp_check_txdone P irq_id t =
      (Inr (hw_readl P a (dev t) AND m), t\<lparr>trace := trace t @ [Readl a (hw_readl P a (dev t))]\<rparr>)"
    for t
    by (simp add: omap3_prm_vp_check_txdone_def f read_mod_reg_unfold io_bind_def io_return_def
        a_def)
  have clr: "omap3_prm_vp_clear_txdone P irq_id s =
      (Inr (), \<lparr>dev = hw_writel P m a (dev s), trace = trace s @ [Writel a m]\<rparr>)"
    by (simp add: omap3_prm_vp_clear_txdone_def f write_mod_reg_unfold io_bind_def io_return_def
        a_def)
  have one: "\<exists>r. omap3_prm_vp_check_txdone P irq_id s =
               (Inr r, s\<lparr>trace := trace s @ [Readl a (hw_readl P a (dev s))]\<rparr>)
            \<and> r = hw_readl P a (dev s) AND m
            \<and> (r \<noteq> 0) = (hw_readl P a (dev s) AND m \<noteq> 0)"
    using chk [of s] by simp
  have two: "\<exists>s'. io_bind (omap3_prm_vp_clear_txdone P irq_id)
                    (\<lambda>_. omap3_prm_vp_check_txdone P irq_id) s = (Inr 0, s')
               \<and> writes_of (trace s') = writes_of (trace s) @ [(a, m)]"
    if w1c: "\<forall>v d. hw_readl P a (hw_writel P v a d) = hw_readl P a d AND NOT v"
  proof -
    have "(hw_readl P a (dev s) AND NOT m) AND m = 0" by (simp add: and.assoc)
    with w1c show ?thesis
      by (simp add: io_bind_def clr chk writes_of_append)
  qed
  from one two show ?thesis by blast
qed

theorem vp_txdone_check_and_clear_witness:
  "(\<forall>v d. sim_readl 0x48306818 (sim_writel v 0x48306818 d) = sim_readl 0x48306818 d AND NOT v)
   \<and> omap3_prm_vp_check_txdone omap3430 0 (in_reset 2) =
       (Inr 0x8000, (in_reset 2)\<lparr>trace := [Readl 0x48306818 0x208000]\<rparr>)
   \<and> (\<exists>s'. io_bind (omap3_prm_vp_clear_txdone omap3430 0)
              (\<lambda>_. omap3_prm_vp_check_txdone omap3430 0) (in_reset 2) = (Inr 0, s')
          \<and> writes_of (trace s') = [(0x48306818, 0x8000)])"
proof -
  have tbl: "omap3_prm_irqs omap3430 =
      [\<lparr>vp_tranxdone_status = 0x8000, abb_tranxdone_status = 0x4000000\<rparr>,
       \<lparr>vp_tranxdone_status = 0x200000, abb_tranxdone_status = 0\<rparr>]"
    by (simp add: omap3_prm_irqs_def omap3430_def)
  have valid: "unat (0 :: u8) < length (omap3_prm_irqs omap3430)" by (simp add: tbl)
  have w1c: "\<forall>v d. sim_readl 0x48306818 (sim_writel v 0x48306818 d) = sim_readl 0x48306818 d AND NOT v"
    by (simp add: sim_readl_def sim_writel_def)
  have rd: "sim_readl 0x48306818 (dev (in_reset 2)) = 0x208000"
    and t: "trace (in_reset 2) = []"
    by (simp_all add: sim_readl_def in_reset_def)
  from vp_txdone_check_and_clear [OF valid, of "in_reset 2", unfolded sim_addrs sim_ops tbl rd t] w1c
  show ?thesis by auto
qed

text \<open>
  C9. For every identifier within the table whose entry has a zero ABB mask,
  \<open>omap36xx_prm_abb_check_txdone\<close> reads the interrupt status register once and
  returns 0, whatever the register holds. The core rail is such an entry: its
  identifier is within the table and its ABB mask is zero.
\<close>

theorem abb_check_txdone_without_abb:
  fixes P :: "'d platform" and irq_id :: u8 and s :: "'d machine"
  defines "a \<equiv> reg_addr (prm_base P) (OCP_MOD P) (OMAP3_PRM_IRQSTATUS_MPU_OFFSET P)"
  assumes valid: "unat irq_id < length (omap3_prm_irqs P)"
    and no_abb: "abb_tranxdone_status (omap3_prm_irqs P ! unat irq_id) = 0"
  shows "omap36xx_prm_abb_check_txdone P irq_id s =
           (Inr 0, s\<lparr>trace := trace s @ [Readl a (hw_readl P a (dev s))]\<rparr>)
      \<and> OMAP3_PRM_IRQ_VDD_CORE_ID P < length (omap3_prm_irqs P)
      \<and> abb_tranxdone_status (omap3_prm_irqs P ! OMAP3_PRM_IRQ_VDD_CORE_ID P) = 0"
proof -
  have "omap36xx_prm_abb_check_txdone P irq_id s =
           (Inr 0, s\<lparr>trace := trace s @ [Readl a (hw_readl P a (dev s))]\<rparr>)"
    using valid no_abb
    by (simp add: omap36xx_prm_abb_check_txdone_def irq_field_def read_mod_reg_unfold
        io_bind_def io_return_def a_def)
  moreover have "OMAP3_PRM_IRQ_VDD_CORE_ID P < length (omap3_prm_irqs P)"
    by (simp add: irqs_length)
  moreover have "abb_tranxdone_status (omap3_prm_irqs P ! OMAP3_PRM_IRQ_VDD_CORE_ID P) = 0"
    by (simp add: irqs_core)
  ultimately show ?thesis by blast
qed

theorem abb_check_txdone_without_abb_witness:
  "unat (1 :: u8) < length (omap3_prm_irqs omap3430)
   \<and> abb_tranxdone_status (omap3_prm_irqs omap3430 ! unat (1 :: u8)) = 0
   \<and> omap36xx_prm_abb_check_txdone omap3430 1
        ((in_reset 2)\<lparr>dev := (dev (in_reset 2))\<lparr>sim_irqstatus := 0xffffffff\<rparr>\<rparr>) =
       (Inr 0, (in_reset 2)\<lparr>dev := (dev (in_reset 2))\<lparr>sim_irqstatus := 0xffffffff\<rparr>,
                            trace := [Readl 0x48306818 0xffffffff]\<rparr>)"
proof -
  let ?s = "(in_reset 2)\<lparr>dev := (dev (in_reset 2))\<lparr>sim_irqstatus := 0xffffffff\<rparr>\<rparr>"
  have valid: "unat (1 :: u8) < length (omap3_prm_irqs omap3430)" by (simp add: sim_irqs)
  have no_abb: "abb_tranxdone_status (omap3_prm_irqs omap3430 ! unat (1 :: u8)) = 0"
    by (simp add: sim_irqs)
  have rd: "sim_readl 0x48306818 (dev ?s) = 0xffffffff"
    and t: "trace ?s = []"
    by (simp_all add: sim_readl_def in_reset_def)
  from abb_check_txdone_without_abb [OF valid no_abb, of ?s, unfolded sim_addrs sim_ops rd t]
    valid no_abb
  show ?thesis by simp
qed

subsection \<open>The register router\<close>

text \<open>
  C8. For every encoded module value (a 2-bit selector above a 13-bit offset),
  \<open>cm_read_mod_reg\<close> and \<open>cm_write_mod_reg\<close> access the register at the
  selected base plus the offset plus the register index: selector 0 is the default
  (CM) region, 1 the PRM region, 3 the secondary CM region, and a null base stops
  in \<open>BUG_ON\<close> before any access. For the remaining selector, 2, and for any
  argument whose selector the switch does not know, the call only logs: the read
  returns 0, the write writes nothing, and the device is untouched.
\<close>

theorem cm_mod_reg_routing:
  fixes P :: "'d platform" and sel :: "2 word" and off :: "13 word" and idx :: u16
    and s :: "'d machine"
  defines "module \<equiv> encoded_module sel off"
  defines "region \<equiv> (if sel = 1 then prm_base P else if sel = 3 then cm2_base P else cm_base P)"
  defines "a \<equiv> region + ucast off + ucast idx"
  defines "unknown \<equiv> s\<lparr>trace := trace s @ [Pr_err ''Unknown CM submodule base\<newline>'']\<rparr>"
  shows "(sel \<noteq> 2 \<and> region \<noteq> 0 \<longrightarrow>
            cm_read_mod_reg P module idx s =
              (Inr (hw_readl P a (dev s)), s\<lparr>trace := trace s @ [Readl a (hw_readl P a (dev s))]\<rparr>)
          \<and> cm_write_mod_reg P val module idx s =
              (Inr (), \<lparr>dev = hw_writel P val a (dev s), trace = trace s @ [Writel a val]\<rparr>))
      \<and> (sel \<noteq> 2 \<and> region = 0 \<longrightarrow>
            cm_read_mod_reg P module idx s = (Inl Kernel_BUG, s)
          \<and> cm_write_mod_reg P val module idx s = (Inl Kernel_BUG, s))
      \<and> (sel = 2 \<longrightarrow>
            cm_read_mod_reg P module idx s = (Inr 0, unknown)
          \<and> cm_write_mod_reg P val module idx s = (Inr (), unknown))
      \<and> (\<forall>m. base_of m \<noteq> DEFAULT_BASE \<and> base_of m \<noteq> PRM_BASE \<and> base_of m \<noteq> CM2_BASE \<longrightarrow>
            cm_read_mod_reg P m idx s = (Inr 0, unknown)
          \<and> cm_write_mod_reg P val m idx s = (Inr (), unknown))"
proof -
  have addr: "reg_addr b (ucast off) idx = b + ucast off + ucast idx" for b
    by (simp add: reg_addr_def scast_offset)
  have none: "cm_read_mod_reg P m idx s = (Inr 0, unknown)
          \<and> cm_write_mod_reg P val m idx s = (Inr (), unknown)"
    if "base_of m \<noteq> DEFAULT_BASE" "base_of m \<noteq> PRM_BASE" "base_of m \<noteq> CM2_BASE" for m
    using that
    by (simp add: cm_read_mod_reg_def cm_write_mod_reg_def Let_def io_bind_def io_return_def
        pr_err_def unknown_def)
  have unk: "\<forall>m. base_of m \<noteq> DEFAULT_BASE \<and> base_of m \<noteq> PRM_BASE \<and> base_of m \<noteq> CM2_BASE \<longrightarrow>
            cm_read_mod_reg P m idx s = (Inr 0, unknown)
          \<and> cm_write_mod_reg P val m idx s = (Inr (), unknown)"
    using none by blast
  have two: "cm_read_mod_reg P module idx s = (Inr 0, unknown)
          \<and> cm_write_mod_reg P val module idx s = (Inr (), unknown)" if "sel = 2"
  proof -
    from that have "base_of module = 2" by (simp add: module_def base_of_encoded)
    then have "base_of module \<noteq> DEFAULT_BASE" "base_of module \<noteq> PRM_BASE"
      "base_of module \<noteq> CM2_BASE"
      by (simp_all add: PRM_BASE_def CM2_BASE_def DEFAULT_BASE_def)
    from none [OF this] show ?thesis .
  qed
  have known: "cm_read_mod_reg P module idx s = omap_prcm_read P region (ucast off) idx s
      \<and> cm_write_mod_reg P val module idx s = omap_prcm_write P val region (ucast off) idx s"
    if "sel \<noteq> 2"
  proof -
    from that selector_cases [of sel] have "sel = 0 \<or> sel = 1 \<or> sel = 3" by blast
    then show ?thesis
      by (elim disjE)
        (simp_all add: cm_read_mod_reg_def cm_write_mod_reg_def Let_def module_def region_def
          base_of_encoded offset_of_encoded PRM_BASE_def CM2_BASE_def DEFAULT_BASE_def)
  qed
  have ok: "cm_read_mod_reg P module idx s =
              (Inr (hw_readl P a (dev s)), s\<lparr>trace := trace s @ [Readl a (hw_readl P a (dev s))]\<rparr>)
          \<and> cm_write_mod_reg P val module idx s =
              (Inr (), \<lparr>dev = hw_writel P val a (dev s), trace = trace s @ [Writel a val]\<rparr>)"
    if "sel \<noteq> 2" "region \<noteq> 0"
    using known [OF that(1)] that(2) by (simp add: prcm_read_unfold prcm_write_unfold addr a_def)
  have bug: "cm_read_mod_reg P module idx s = (Inl Kernel_BUG, s)
          \<and> cm_write_mod_reg P val module idx s = (Inl Kernel_BUG, s)"
    if "sel \<noteq> 2" "region = 0"
    using known [OF that(1)] that(2) by (simp add: prcm_read_unfold prcm_write_unfold)
  from ok bug two unk show ?thesis by blast
qed

theorem cm_mod_reg_routing_witness:
  "cm_read_mod_reg omap3430 (encoded_module 1 0x18) 0 (in_reset 2) =
       (Inr 0x208000, (in_reset 2)\<lparr>trace := [Readl 0x48306818 0x208000]\<rparr>)
   \<and> cm_write_mod_reg omap3430 0x8000 (encoded_module 1 0x18) 0 (in_reset 2) =
       (Inr (), \<lparr>dev = (dev (in_reset 2))\<lparr>sim_irqstatus := 0x200000\<rparr>,
                 trace = [Writel 0x48306818 0x8000]\<rparr>)
   \<and> cm_read_mod_reg omap3430 (encoded_module 3 0x18) 0 (in_reset 2) = (Inl Kernel_BUG, in_reset 2)
   \<and> cm_read_mod_reg omap3430 (encoded_module 2 0x18) 0 (in_reset 2) =
       (Inr 0, (in_reset 2)\<lparr>trace := [Pr_err ''Unknown CM submodule base\<newline>'']\<rparr>)
   \<and> cm_write_mod_reg omap3430 0x8000 (encoded_module 2 0x18) 0 (in_reset 2) =
       (Inr (), (in_reset 2)\<lparr>trace := [Pr_err ''Unknown CM submodule base\<newline>'']\<rparr>)"
proof -
  have bases: "prm_base omap3430 = 0x48306800" "cm2_base omap3430 = 0" "cm_base omap3430 = 0x48004800"
    by (simp_all add: omap3430_def)
  have st: "dev (in_reset 2) = \<lparr>sim_rstctrl = 0x7, sim_rstst = 0x100, sim_irqstatus = 0x208000,
              sim_elapsed = 0, sim_latency = 2\<rparr>"
    and t: "trace (in_reset 2) = []"
    by (simp_all add: in_reset_def)
  note r = cm_mod_reg_routing [of _ omap3430 _ "0 :: u16" "in_reset 2" "0x8000 :: u32",
      unfolded sim_ops bases t]
  from r [of 1 "0x18"] r [of 2 "0x18"] r [of 3 "0x18"]
  show ?thesis
    by (simp add: sim_readl_def sim_writel_def st in_reset_def)
qed

end
